theory Spec2Isabelle
  imports Main "HOL-Library.Multiset" "HOL-Library.Char_ord" "HOL-Library.List_Lexorder"
begin

unbundle bit_operations_syntax

section \<open>Flag helpers of plugins/common/utils.go\<close>

text \<open>
  A shallow embedding of \<^verbatim>\<open>plugins/common/utils.go\<close>. Go strings are byte strings and are
  modelled as \<open>string\<close> (a list of bytes). Go's \<open>int\<close> is taken to be 64 bits wide, as
  \<open>int64\<close> is; both are modelled as \<open>int\<close>, and the only place where values are produced
  (the parsers of \<open>strconv\<close>) writes the range limits out. An \<open>error\<close> result is an
  \<open>error option\<close>, \<open>None\<close> being Go's \<open>nil\<close>. A nil slice is the empty list.
\<close>

subsection \<open>Errors\<close>

datatype num_err = ErrSyntax | ErrRange | ErrBase int | ErrBitSize int

text \<open>\<open>errors_New msg\<close> is the value of \<open>errors.New(msg)\<close>; \<open>NumError fn num err\<close> is
  \<open>&strconv.NumError{Func: fn, Num: num, Err: err}\<close>.\<close>

datatype error = errors_New string | NumError string string num_err

definition syntaxError :: "string \<Rightarrow> string \<Rightarrow> error" where
  "syntaxError fn str = NumError fn str ErrSyntax"

definition rangeError :: "string \<Rightarrow> string \<Rightarrow> error" where
  "rangeError fn str = NumError fn str ErrRange"

definition baseError :: "string \<Rightarrow> string \<Rightarrow> int \<Rightarrow> error" where
  "baseError fn str base = NumError fn str (ErrBase base)"

definition bitSizeError :: "string \<Rightarrow> string \<Rightarrow> int \<Rightarrow> error" where
  "bitSizeError fn str bitSize = NumError fn str (ErrBitSize bitSize)"

subsection \<open>The parsers of the standard library (package strconv)\<close>

text \<open>The value of a byte, and \<open>lower(c) = c | ('x' - 'X')\<close>.\<close>

definition byte :: "char \<Rightarrow> nat" where
  "byte c = of_char c"

definition lower :: "nat \<Rightarrow> nat" where
  "lower c = c OR 32"

definition IntSize :: int where
  "IntSize = 64"

definition maxUint64 :: int where
  "maxUint64 = 2 ^ 64 - 1"

text \<open>\<open>underscoreOK\<close>: underscores may only separate digits (or follow the base prefix).
  The variable \<open>saw\<close> holds one of the characters \<open>^\<close>, \<open>0\<close>, \<open>_\<close> and \<open>!\<close>.\<close>

fun underscoreOK_loop :: "bool \<Rightarrow> char \<Rightarrow> string \<Rightarrow> bool" where
  "underscoreOK_loop hex saw [] = (saw \<noteq> CHR ''_'')"
| "underscoreOK_loop hex saw (c # cs) =
     (if (48 \<le> byte c \<and> byte c \<le> 57) \<or> (hex \<and> 97 \<le> lower (byte c) \<and> lower (byte c) \<le> 102)
      then underscoreOK_loop hex (CHR ''0'') cs
      else if c = CHR ''_''
      then (if saw \<noteq> CHR ''0'' then False else underscoreOK_loop hex (CHR ''_'') cs)
      else if saw = CHR ''_'' then False
      else underscoreOK_loop hex (CHR ''!'') cs)"

definition underscoreOK :: "string \<Rightarrow> bool" where
  "underscoreOK s0 =
     (let s = (if length s0 \<ge> 1 \<and> (hd s0 = CHR ''-'' \<or> hd s0 = CHR ''+'') then tl s0 else s0)
      in if length s \<ge> 2 \<and> s ! 0 = CHR ''0'' \<and>
            (lower (byte (s ! 1)) = 98 \<or> lower (byte (s ! 1)) = 111 \<or> lower (byte (s ! 1)) = 120)
         then underscoreOK_loop (lower (byte (s ! 1)) = 120) (CHR ''0'') (drop 2 s)
         else underscoreOK_loop False (CHR ''^'') s)"

text \<open>The digit loop of \<open>ParseUint\<close>. One round of the loop either returns from the
  function (\<open>Inl\<close>) or goes on with the new accumulator and underscore flag (\<open>Inr\<close>). The
  accumulator \<open>n\<close> is a \<open>uint64\<close>, a non-negative \<open>int\<close> here: the multiplication and the addition wrap around at
  \<open>2 ^ 64\<close>, and the round tests the wrap-around of the addition as the code does
  (\<open>n1 < n\<close>).\<close>

definition ParseUint_round ::
  "char \<Rightarrow> string \<Rightarrow> int \<Rightarrow> bool \<Rightarrow> int \<Rightarrow> int \<Rightarrow> int \<Rightarrow> bool
     \<Rightarrow> (int \<times> error option) + (int \<times> bool)" where
  "ParseUint_round c s0 base base0 cutoff maxVal n underscores =
     (if c = CHR ''_'' \<and> base0 then Inr (n, True)
      else if \<not> ((48 \<le> byte c \<and> byte c \<le> 57) \<or> (97 \<le> lower (byte c) \<and> lower (byte c) \<le> 122))
      then Inl (0, Some (syntaxError ''ParseUint'' s0))
      else
        let d = int (if 48 \<le> byte c \<and> byte c \<le> 57 then byte c - 48 else lower (byte c) - 97 + 10)
        in if d \<ge> base then Inl (0, Some (syntaxError ''ParseUint'' s0))
           else if n \<ge> cutoff then Inl (maxVal, Some (rangeError ''ParseUint'' s0))
           else
             let n' = (n * base) mod 2 ^ 64;
                 n1 = (n' + d) mod 2 ^ 64
             in if n1 < n' \<or> n1 > maxVal then Inl (maxVal, Some (rangeError ''ParseUint'' s0))
                else Inr (n1, underscores))"

fun ParseUint_loop ::
  "string \<Rightarrow> string \<Rightarrow> int \<Rightarrow> bool \<Rightarrow> int \<Rightarrow> int \<Rightarrow> int \<Rightarrow> bool \<Rightarrow> int \<times> error option" where
  "ParseUint_loop [] s0 base base0 cutoff maxVal n underscores =
     (if underscores \<and> \<not> underscoreOK s0 then (0, Some (syntaxError ''ParseUint'' s0))
      else (n, None))"
| "ParseUint_loop (c # cs) s0 base base0 cutoff maxVal n underscores =
     (case ParseUint_round c s0 base base0 cutoff maxVal n underscores of
        Inl r \<Rightarrow> r
      | Inr (n1, us) \<Rightarrow> ParseUint_loop cs s0 base base0 cutoff maxVal n1 us)"

definition ParseUint :: "string \<Rightarrow> int \<Rightarrow> int \<Rightarrow> int \<times> error option" where
  "ParseUint s0 base0 bitSize0 =
     (if s0 = [] then (0, Some (syntaxError ''ParseUint'' s0))
      else if \<not> (2 \<le> base0 \<and> base0 \<le> 36) \<and> base0 \<noteq> 0
      then (0, Some (baseError ''ParseUint'' s0 base0))
      else
        let (base, s) =
              (if base0 \<noteq> 0 then (base0, s0)
               else if hd s0 = CHR ''0''
               then (if length s0 \<ge> 3 \<and> lower (byte (s0 ! 1)) = 98 then (2, drop 2 s0)
                     else if length s0 \<ge> 3 \<and> lower (byte (s0 ! 1)) = 111 then (8, drop 2 s0)
                     else if length s0 \<ge> 3 \<and> lower (byte (s0 ! 1)) = 120 then (16, drop 2 s0)
                     else (8, drop 1 s0))
               else (10, s0))
        in if bitSize0 \<noteq> 0 \<and> (bitSize0 < 0 \<or> bitSize0 > 64)
           then (0, Some (bitSizeError ''ParseUint'' s0 bitSize0))
           else
             let bitSize = (if bitSize0 = 0 then IntSize else bitSize0);
                 cutoff = maxUint64 div base + 1;
                 maxVal = (2 ^ nat bitSize mod 2 ^ 64 + 2 ^ 64 - 1) mod 2 ^ 64
             in ParseUint_loop s s0 base (base0 = 0) cutoff maxVal 0 False)"

text \<open>\<open>ParseInt\<close>: the sign is picked off, the digits go through \<open>ParseUint\<close>, and a value
  out of range is reported with the nearest representable value. Every error of
  \<open>ParseUint\<close> other than a range error is given the function name and the whole input.\<close>

definition is_NumError_not_range :: "error option \<Rightarrow> bool" where
  "is_NumError_not_range err =
     (case err of Some (NumError fn num e) \<Rightarrow> e \<noteq> ErrRange | _ \<Rightarrow> False)"

definition set_Func_Num :: "string \<Rightarrow> string \<Rightarrow> error option \<Rightarrow> error option" where
  "set_Func_Num fn s0 err =
     (case err of Some (NumError f num e) \<Rightarrow> Some (NumError fn s0 e) | _ \<Rightarrow> err)"

definition ParseInt :: "string \<Rightarrow> int \<Rightarrow> int \<Rightarrow> int \<times> error option" where
  "ParseInt s0 base bitSize0 =
     (if s0 = [] then (0, Some (syntaxError ''ParseInt'' s0))
      else
        let neg = (hd s0 = CHR ''-'');
            s = (if hd s0 = CHR ''+'' \<or> hd s0 = CHR ''-'' then tl s0 else s0);
            (un, err) = ParseUint s base bitSize0
        in if is_NumError_not_range err then (0, set_Func_Num ''ParseInt'' s0 err)
           else
             let bitSize = (if bitSize0 = 0 then IntSize else bitSize0);
                 cutoff = (2::int) ^ nat (bitSize - 1)
             in if \<not> neg \<and> un \<ge> cutoff then (cutoff - 1, Some (rangeError ''ParseInt'' s0))
                else if neg \<and> un > cutoff then (- cutoff, Some (rangeError ''ParseInt'' s0))
                else (if neg then - un else un, None))"

text \<open>\<open>Atoi\<close>: a fast path for inputs of fewer than 19 bytes, whose digits cannot
  overflow an \<open>int\<close>, and \<open>ParseInt(s, 10, 0)\<close> otherwise. In the fast path
  \<open>ch -= '0'\<close> is a subtraction of bytes, which wraps around at 256.\<close>

fun Atoi_loop :: "string \<Rightarrow> string \<Rightarrow> int \<Rightarrow> int \<times> error option" where
  "Atoi_loop [] s0 n = (if hd s0 = CHR ''-'' then - n else n, None)"
| "Atoi_loop (ch # cs) s0 n =
     (let ch' = (byte ch + 256 - 48) mod 256
      in if ch' > 9 then (0, Some (syntaxError ''Atoi'' s0))
         else Atoi_loop cs s0 (n * 10 + int ch'))"

definition set_Func :: "string \<Rightarrow> error option \<Rightarrow> error option" where
  "set_Func fn err = (case err of Some (NumError f num e) \<Rightarrow> Some (NumError fn num e) | _ \<Rightarrow> err)"

definition Atoi :: "string \<Rightarrow> int \<times> error option" where
  "Atoi s0 =
     (if 0 < length s0 \<and> length s0 < 19
      then (if hd s0 = CHR ''-'' \<or> hd s0 = CHR ''+''
            then (if length (tl s0) < 1 then (0, Some (syntaxError ''Atoi'' s0))
                  else Atoi_loop (tl s0) s0 0)
            else Atoi_loop s0 s0 0)
      else let (i64, err) = ParseInt s0 10 0 in (i64, set_Func ''Atoi'' err))"

text \<open>\<open>Itoa\<close>: the decimal digits of the magnitude, most significant first, read from the
  digit table, after a minus sign for a negative number.\<close>

definition digits :: string where
  "digits = ''0123456789abcdefghijklmnopqrstuvwxyz''"

fun formatBits :: "nat \<Rightarrow> string" where
  "formatBits u = (if u < 10 then [digits ! u] else formatBits (u div 10) @ [digits ! (u mod 10)])"

definition Itoa :: "int \<Rightarrow> string" where
  "Itoa i = (if i < 0 then CHR ''-'' # formatBits (nat (- i)) else formatBits (nat i))"

text \<open>\<open>ParseBool\<close> accepts exactly twelve spellings.\<close>

definition ParseBool :: "string \<Rightarrow> bool \<times> error option" where
  "ParseBool str =
     (if str \<in> set [''1'', ''t'', ''T'', ''true'', ''TRUE'', ''True''] then (True, None)
      else if str \<in> set [''0'', ''f'', ''F'', ''false'', ''FALSE'', ''False''] then (False, None)
      else (False, Some (syntaxError ''ParseBool'' str)))"

subsection \<open>The package strings\<close>

text \<open>\<open>strings.Split(s, sep)\<close> for a separator of one byte, which is how this file calls it
  (\<open>sep = ";"\<close>). \<open>Count\<close> counts the occurrences of the byte, \<open>IndexByte\<close> finds the
  first one (\<open>None\<close> for Go's \<open>-1\<close>), and \<open>genSplit\<close> cuts at most \<open>n - 1\<close> times, where
  \<open>n\<close> is the number of occurrences plus one.\<close>

definition Count :: "string \<Rightarrow> char \<Rightarrow> nat" where
  "Count s sep = length (filter (\<lambda>c. c = sep) s)"

fun IndexByte :: "string \<Rightarrow> char \<Rightarrow> nat option" where
  "IndexByte [] sep = None"
| "IndexByte (c # cs) sep =
     (if c = sep then Some 0 else map_option Suc (IndexByte cs sep))"

fun genSplit_loop :: "nat \<Rightarrow> string \<Rightarrow> char \<Rightarrow> string list" where
  "genSplit_loop 0 s sep = [s]"
| "genSplit_loop (Suc k) s sep =
     (case IndexByte s sep of
        None \<Rightarrow> [s]
      | Some m \<Rightarrow> take m s # genSplit_loop k (drop (m + 1) s) sep)"

definition Split :: "string \<Rightarrow> char \<Rightarrow> string list" where
  "Split s sep =
     (let n = Count s sep + 1;
          n = (if n > length s + 1 then length s + 1 else n)
      in genSplit_loop (n - 1) s sep)"

text \<open>\<open>strings.Join\<close>, used to state what a split is.\<close>

fun Join :: "string list \<Rightarrow> string \<Rightarrow> string" where
  "Join [] sep = []"
| "Join [x] sep = x"
| "Join (x # y # ys) sep = x @ sep @ Join (y # ys) sep"

subsection \<open>The collaborators outside this file\<close>

text \<open>The command context of package \<open>components\<close> is used through three methods only:
  whether a flag was set, its string value and its boolean value. They are the fields of
  the record, so that a theorem about every context is about every behaviour of the three
  methods.\<close>

record Context =
  Arguments :: "string list"
  CommandName :: string
  IsFlagSet :: "string \<Rightarrow> bool"
  GetStringFlagValue :: "string \<Rightarrow> string"
  GetBoolFlagValue :: "string \<Rightarrow> bool"

text \<open>The constants of package \<open>coreutils\<close> that this file reads: the help URL and the
  names of two environment variables. Their values are not fixed here.\<close>

record coreutils =
  JFrogHelpUrl :: string
  CI :: string
  Project :: string

text \<open>The process environment; \<open>os.Getenv\<close> yields the empty string for a variable that is
  not set.\<close>

type_synonym environ = "string \<rightharpoonup> string"

definition Getenv :: "environ \<Rightarrow> string \<Rightarrow> string" where
  "Getenv env key = (case env key of None \<Rightarrow> [] | Some v \<Rightarrow> v)"

text \<open>\<open>clientutils.GetBoolEnvValue\<close> of the client library: the default for an empty
  variable, \<open>strconv.ParseBool\<close> otherwise; the error of the parse is handed on (the
  library's error hook is the identity unless a program replaces it).\<close>

definition GetBoolEnvValue :: "environ \<Rightarrow> string \<Rightarrow> bool \<Rightarrow> bool \<times> error option" where
  "GetBoolEnvValue env flagName defValue =
     (let envVarValue = Getenv env flagName
      in if envVarValue = [] then (defValue, None) else ParseBool envVarValue)"

text \<open>Modelled from the spec: the record \<open>DownloadConfiguration\<close> of package
  \<open>artifactory/utils\<close>, whose declaration is not among the sources; the fields are the five
  the specification lists (minimum split size, split count, thread count, skip-checksum,
  symlink).\<close>

record DownloadConfiguration =
  Threads :: int
  SplitCount :: int
  MinSplitSize :: int
  Symlink :: bool
  SkipChecksum :: bool

definition new_DownloadConfiguration :: DownloadConfiguration where
  "new_DownloadConfiguration =
     \<lparr>Threads = 0, SplitCount = 0, MinSplitSize = 0, Symlink = False, SkipChecksum = False\<rparr>"

text \<open>A flag descriptor (\<open>components.Flag\<close>) is an interface value: \<open>nil\<close>, or a value
  that has a name and further content \<open>'a\<close>. Calling \<open>GetName\<close> on \<open>nil\<close> panics.\<close>

datatype panic = nil_dereference

datatype 'a Flag = nil_Flag | Flag string 'a

fun GetName :: "'a Flag \<Rightarrow> panic + string" where
  "GetName nil_Flag = Inl nil_dereference"
| "GetName (Flag name x) = Inr name"

text \<open>The log: each call of \<open>log.Error\<close> adds an entry with the arguments of the call.\<close>

datatype log_entry = log_Error "string list"

subsection \<open>Sorting a slice (package sort)\<close>

text \<open>\<open>sort.Slice\<close> promises a slice sorted by \<open>less\<close>, holding the elements it held before,
  and no order among elements that \<open>less\<close> does not tell apart. The model is the insertion
  sort of the library, which is what it runs on a short slice: element \<open>i\<close> moves down as
  long as it is less than the one before it. On a longer slice the library partitions
  first, in a way that differs between releases of Go; what is proved below, the order by
  name and the elements of the result, is what every release promises. A panic of \<open>less\<close>
  ends the sort.\<close>

fun insertionSort_inner :: "('a \<Rightarrow> 'a \<Rightarrow> panic + bool) \<Rightarrow> 'a list \<Rightarrow> nat \<Rightarrow> panic + 'a list" where
  "insertionSort_inner lessf data 0 = Inr data"
| "insertionSort_inner lessf data (Suc j) =
     (case lessf (data ! Suc j) (data ! j) of
        Inl p \<Rightarrow> Inl p
      | Inr b \<Rightarrow>
          if b then insertionSort_inner lessf (data[Suc j := data ! j, j := data ! Suc j]) j
          else Inr data)"

text \<open>The outer loop \<open>for i := a + 1; i < b; i++\<close>; the last argument counts the rounds
  left, \<open>b - i\<close>.\<close>

fun insertionSort_outer ::
  "('a \<Rightarrow> 'a \<Rightarrow> panic + bool) \<Rightarrow> 'a list \<Rightarrow> nat \<Rightarrow> nat \<Rightarrow> panic + 'a list" where
  "insertionSort_outer lessf data i 0 = Inr data"
| "insertionSort_outer lessf data i (Suc k) =
     (case insertionSort_inner lessf data i of
        Inl p \<Rightarrow> Inl p
      | Inr data' \<Rightarrow> insertionSort_outer lessf data' (Suc i) k)"

definition sort_Slice :: "'a list \<Rightarrow> ('a \<Rightarrow> 'a \<Rightarrow> panic + bool) \<Rightarrow> panic + 'a list" where
  "sort_Slice data lessf = insertionSort_outer lessf data 1 (length data - 1)"

subsection \<open>The functions of utils.go\<close>

definition minSplit :: string where
  "minSplit = ''min-split''"

definition DownloadMinSplitKb :: int where
  "DownloadMinSplitKb = 5120"

definition DownloadSplitCount :: int where
  "DownloadSplitCount = 3"

definition DownloadMaxSplitCount :: int where
  "DownloadMaxSplitCount = 15"

definition GetStringsArrFlagValue :: "Context \<Rightarrow> string \<Rightarrow> string list" where
  "GetStringsArrFlagValue c flagName =
     (if IsFlagSet c flagName then [] @ Split (GetStringFlagValue c flagName) (CHR '';'') else [])"

text \<open>The three functions that write through a pointer take the old value of the field
  and return the new one.\<close>

definition OverrideArrayIfSet :: "string list \<Rightarrow> Context \<Rightarrow> string \<Rightarrow> string list" where
  "OverrideArrayIfSet field c fieldName =
     (if IsFlagSet c fieldName then [] @ Split (GetStringFlagValue c fieldName) (CHR '';'')
      else field)"

definition OverrideIntIfSet :: "int \<Rightarrow> Context \<Rightarrow> string \<Rightarrow> int" where
  "OverrideIntIfSet field c fieldName =
     (if IsFlagSet c fieldName
      then (let (val, err) = ParseInt (GetStringFlagValue c fieldName) 0 64
            in if err \<noteq> None then field else val)
      else field)"

definition OverrideStringIfSet :: "string \<Rightarrow> Context \<Rightarrow> string \<Rightarrow> string" where
  "OverrideStringIfSet field c fieldName =
     (if IsFlagSet c fieldName then GetStringFlagValue c fieldName else field)"

text \<open>\<open>cliutils.GetThreadsCount\<close> is not among the sources; it is an argument.\<close>

definition GetThreadsCount ::
  "(string \<Rightarrow> int \<times> error option) \<Rightarrow> Context \<Rightarrow> int \<times> error option" where
  "GetThreadsCount cliutils_GetThreadsCount c =
     cliutils_GetThreadsCount (GetStringFlagValue c ''threads'')"

definition ExtractArguments :: "Context \<Rightarrow> string list" where
  "ExtractArguments c = Arguments c"

definition less_GetName :: "'a Flag \<Rightarrow> 'a Flag \<Rightarrow> panic + bool" where
  "less_GetName x y =
     (case GetName x of
        Inl p \<Rightarrow> Inl p
      | Inr nx \<Rightarrow> (case GetName y of Inl p \<Rightarrow> Inl p | Inr ny \<Rightarrow> Inr (nx < ny)))"

text \<open>Reading a key that a Go map does not hold yields the zero value of the value type,
  here the nil interface.\<close>

definition lookup_Flag :: "(string \<rightharpoonup> 'a Flag) \<Rightarrow> string \<Rightarrow> 'a Flag" where
  "lookup_Flag flagsMap flag = (case flagsMap flag of None \<Rightarrow> nil_Flag | Some f \<Rightarrow> f)"

definition buildAndSortFlags :: "string list \<Rightarrow> (string \<rightharpoonup> 'a Flag) \<Rightarrow> panic + 'a Flag list" where
  "buildAndSortFlags keys flagsMap = sort_Slice (map (lookup_Flag flagsMap) keys) less_GetName"

text \<open>\<open>GetCommandFlags\<close> returns the slice, or panics, and the entries it has logged.\<close>

definition GetCommandFlags ::
  "string \<Rightarrow> (string \<rightharpoonup> string list) \<Rightarrow> (string \<rightharpoonup> 'a Flag)
     \<Rightarrow> (panic + 'a Flag list) \<times> log_entry list" where
  \<open>GetCommandFlags cmdKey commandToFlags flagsMap =
     (case commandToFlags cmdKey of
        None \<Rightarrow>
          (Inr [], [log_Error [''The command "'', cmdKey, ''" is not found in commands flags map.'']])
      | Some flagList \<Rightarrow> (buildAndSortFlags flagList flagsMap, []))\<close>

definition getCiValue :: "coreutils \<Rightarrow> environ \<Rightarrow> bool" where
  "getCiValue cu env =
     (let (ci, err) = GetBoolEnvValue env (CI cu) False
      in if err \<noteq> None then False else ci)"

definition GetQuietValue :: "coreutils \<Rightarrow> environ \<Rightarrow> Context \<Rightarrow> bool" where
  "GetQuietValue cu env c =
     (if IsFlagSet c ''quiet'' then GetBoolFlagValue c ''quiet'' else getCiValue cu env)"

definition getOrDefaultEnv :: "environ \<Rightarrow> string \<Rightarrow> string \<Rightarrow> string" where
  "getOrDefaultEnv env arg envKey = (if arg \<noteq> [] then arg else Getenv env envKey)"

definition GetProject :: "coreutils \<Rightarrow> environ \<Rightarrow> Context \<Rightarrow> string" where
  "GetProject cu env c =
     (let projectKey = GetStringFlagValue c ''project''
      in getOrDefaultEnv env projectKey (Project cu))"

definition GetDocumentationMessage :: "coreutils \<Rightarrow> string" where
  "GetDocumentationMessage cu = ''You can read the documentation at '' @ JFrogHelpUrl cu @ ''jfrog-cli''"

definition getMinSplit :: "coreutils \<Rightarrow> Context \<Rightarrow> int \<Rightarrow> int \<times> error option" where
  "getMinSplit cu c defaultMinSplit =
     (if GetStringFlagValue c minSplit \<noteq> []
      then (let (minSplitSize, err) = ParseInt (GetStringFlagValue c minSplit) 10 64
            in if err \<noteq> None
               then (0, Some (errors_New (''The '--min-split' option should have a numeric value. ''
                                            @ GetDocumentationMessage cu)))
               else (minSplitSize, None))
      else (defaultMinSplit, None))"

text \<open>In \<open>getSplitCount\<close> the three tests follow one another without a return in between:
  each may overwrite the error of the one before.\<close>

definition getSplitCount :: "coreutils \<Rightarrow> Context \<Rightarrow> int \<Rightarrow> int \<Rightarrow> int \<times> error option" where
  "getSplitCount cu c defaultSplitCount maxSplitCount =
     (if GetStringFlagValue c ''split-count'' \<noteq> []
      then (let (splitCount, err) = Atoi (GetStringFlagValue c ''split-count'');
                err = (if err \<noteq> None
                       then Some (errors_New (''The '--split-count' option should have a numeric value. ''
                                                @ GetDocumentationMessage cu))
                       else err);
                err = (if splitCount > maxSplitCount
                       then Some (errors_New (''The '--split-count' option value is limited to a maximum of ''
                                                @ Itoa maxSplitCount @ ''.''))
                       else err);
                err = (if splitCount < 0
                       then Some (errors_New ''the '--split-count' option cannot have a negative value'')
                       else err)
            in (splitCount, err))
      else (defaultSplitCount, None))"

text \<open>\<open>CreateDownloadConfiguration\<close> returns a pointer and an error, as the code does:
  the first component is \<open>None\<close> for the nil pointer.\<close>

definition CreateDownloadConfiguration ::
  "coreutils \<Rightarrow> (string \<Rightarrow> int \<times> error option) \<Rightarrow> Context
     \<Rightarrow> DownloadConfiguration option \<times> error option" where
  "CreateDownloadConfiguration cu cliutils_GetThreadsCount c =
     (let downloadConfiguration = new_DownloadConfiguration;
          (v, err) = getMinSplit cu c DownloadMinSplitKb;
          downloadConfiguration = downloadConfiguration\<lparr>MinSplitSize := v\<rparr>
      in if err \<noteq> None then (None, err)
         else
           let (v, err) = getSplitCount cu c DownloadSplitCount DownloadMaxSplitCount;
               downloadConfiguration = downloadConfiguration\<lparr>SplitCount := v\<rparr>
           in if err \<noteq> None then (None, err)
              else
                let (v, err) = GetThreadsCount cliutils_GetThreadsCount c;
                    downloadConfiguration = downloadConfiguration\<lparr>Threads := v\<rparr>
                in if err \<noteq> None then (None, err)
                   else
                     let downloadConfiguration =
                           downloadConfiguration\<lparr>SkipChecksum := GetBoolFlagValue c ''skip-checksum''\<rparr>;
                         downloadConfiguration = downloadConfiguration\<lparr>Symlink := True\<rparr>
                     in (Some downloadConfiguration, err))"

subsection \<open>Names for the statements, and inputs for the examples\<close>

text \<open>The three errors of \<open>getSplitCount\<close>.\<close>

definition err_numeric :: "coreutils \<Rightarrow> error" where
  "err_numeric cu = errors_New (''The '--split-count' option should have a numeric value. ''
                                  @ GetDocumentationMessage cu)"

definition err_maximum :: "int \<Rightarrow> error" where
  "err_maximum maxSplitCount =
     errors_New (''The '--split-count' option value is limited to a maximum of ''
                   @ Itoa maxSplitCount @ ''.'')"

definition err_negative :: error where
  "err_negative = errors_New ''the '--split-count' option cannot have a negative value''"

text \<open>The name of a descriptor that is not nil, and the insertion of an element into a
  list that is sorted downwards: the sorted part of the slice, read from the end.\<close>

definition name_of :: "'a Flag \<Rightarrow> string" where
  "name_of f = (case f of nil_Flag \<Rightarrow> [] | Flag name x \<Rightarrow> name)"

fun insert_down :: "('a \<Rightarrow> 'k::linorder) \<Rightarrow> 'a \<Rightarrow> 'a list \<Rightarrow> 'a list" where
  "insert_down key x [] = [x]"
| "insert_down key x (y # ys) =
     (if key x < key y then y # insert_down key x ys else x # y # ys)"

text \<open>A context for the examples: the flags that were given, and the string and boolean
  values of the flags; a flag without a value has the empty string and \<open>false\<close>.\<close>

definition example_Context :: "string list \<Rightarrow> (string \<rightharpoonup> string) \<Rightarrow> (string \<rightharpoonup> bool) \<Rightarrow> Context" where
  "example_Context given strs bools =
     \<lparr>Arguments = [], CommandName = ''download'',
      IsFlagSet = (\<lambda>k. k \<in> set given),
      GetStringFlagValue = (\<lambda>k. case strs k of None \<Rightarrow> [] | Some v \<Rightarrow> v),
      GetBoolFlagValue = (\<lambda>k. case bools k of None \<Rightarrow> False | Some b \<Rightarrow> b)\<rparr>"

definition example_coreutils :: coreutils where
  "example_coreutils = \<lparr>JFrogHelpUrl = ''https://help.example/'', CI = ''CI'', Project = ''JFROG_CLI_BUILD_PROJECT''\<rparr>"

definition example_GetThreadsCount :: "string \<Rightarrow> int \<times> error option" where
  "example_GetThreadsCount s = (if s = [] then (3, None) else Atoi s)"

section \<open>Properties\<close>

subsection \<open>Unfolding the definitions\<close>

lemma example_Context_simps:
  "IsFlagSet (example_Context given strs bools) k = (k \<in> set given)"
  "GetStringFlagValue (example_Context given strs bools) k = (case strs k of None \<Rightarrow> [] | Some v \<Rightarrow> v)"
  "GetBoolFlagValue (example_Context given strs bools) k = (case bools k of None \<Rightarrow> False | Some b \<Rightarrow> b)"
  by (simp_all add: example_Context_def)

lemma getSplitCount_unfold:
  "getSplitCount cu c d m =
     (if GetStringFlagValue c ''split-count'' = [] then (d, None)
      else (fst (Atoi (GetStringFlagValue c ''split-count'')),
            if fst (Atoi (GetStringFlagValue c ''split-count'')) < 0 then Some err_negative
            else if fst (Atoi (GetStringFlagValue c ''split-count'')) > m then Some (err_maximum m)
            else if snd (Atoi (GetStringFlagValue c ''split-count'')) \<noteq> None then Some (err_numeric cu)
            else None))"
  by (simp add: getSplitCount_def err_negative_def err_maximum_def err_numeric_def Let_def
      split: prod.splits)

lemma getMinSplit_unfold:
  "getMinSplit cu c d =
     (if GetStringFlagValue c ''min-split'' = [] then (d, None)
      else if snd (ParseInt (GetStringFlagValue c ''min-split'') 10 64) \<noteq> None
      then (0, Some (errors_New (''The '--min-split' option should have a numeric value. ''
                                   @ GetDocumentationMessage cu)))
      else (fst (ParseInt (GetStringFlagValue c ''min-split'') 10 64), None))"
  by (simp add: getMinSplit_def minSplit_def Let_def split: prod.splits)

lemma CreateDownloadConfiguration_cases:
  "CreateDownloadConfiguration cu g c =
     (if snd (getMinSplit cu c DownloadMinSplitKb) \<noteq> None
      then (None, snd (getMinSplit cu c DownloadMinSplitKb))
      else if snd (getSplitCount cu c DownloadSplitCount DownloadMaxSplitCount) \<noteq> None
      then (None, snd (getSplitCount cu c DownloadSplitCount DownloadMaxSplitCount))
      else if snd (GetThreadsCount g c) \<noteq> None
      then (None, snd (GetThreadsCount g c))
      else (Some \<lparr>Threads = fst (GetThreadsCount g c),
                  SplitCount = fst (getSplitCount cu c DownloadSplitCount DownloadMaxSplitCount),
                  MinSplitSize = fst (getMinSplit cu c DownloadMinSplitKb),
                  Symlink = True,
                  SkipChecksum = GetBoolFlagValue c ''skip-checksum''\<rparr>, None))"
  by (simp add: CreateDownloadConfiguration_def new_DownloadConfiguration_def Let_def
      split: prod.splits)

lemma Atoi_minus_huge:
  "Atoi ''-99999999999999999999'' =
     (- 9223372036854775808, Some (NumError ''Atoi'' ''-99999999999999999999'' ErrRange))"
  by code_simp

lemma ParseInt_abc: "ParseInt ''abc'' 10 64 = (0, Some (NumError ''ParseInt'' ''abc'' ErrSyntax))"
  by code_simp

lemma ParseInt0_zz: "ParseInt ''zz'' 0 64 = (0, Some (NumError ''ParseInt'' ''zz'' ErrSyntax))"
  by code_simp

lemma ParseInt0_0x10: "ParseInt ''0x10'' 0 64 = (16, None)"
  by code_simp

lemma Atoi_Itoa_small:
  assumes "0 \<le> n" and "n \<le> 15"
  shows "Atoi (Itoa n) = (n, None) \<and> Itoa n \<noteq> []"
proof -
  have "\<forall>k\<in>set [0..15]. Atoi (Itoa k) = (k, None) \<and> Itoa k \<noteq> []"
    by code_simp
  moreover have "n \<in> set [0..15]"
    using assms by simp
  ultimately show ?thesis
    by blast
qed

lemma ParseInt_5k: "ParseInt ''5k'' 10 64 = (0, Some (NumError ''ParseInt'' ''5k'' ErrSyntax))"
  by code_simp

lemma Atoi_16: "Atoi ''16'' = (16, None)"
  by code_simp

lemma Atoi_minus_1: "Atoi ''-1'' = (- 1, None)"
  by code_simp

lemma Itoa_15: "Itoa 15 = ''15''"
  by code_simp

lemma example_GetThreadsCount_empty: "example_GetThreadsCount [] = (3, None)"
  by (simp add: example_GetThreadsCount_def)

lemma CreateDownloadConfiguration_Some:
  "fst (CreateDownloadConfiguration cu g c) = Some cfg \<Longrightarrow>
     MinSplitSize cfg = fst (getMinSplit cu c DownloadMinSplitKb) \<and>
     SplitCount cfg = fst (getSplitCount cu c DownloadSplitCount DownloadMaxSplitCount) \<and>
     Threads cfg = fst (GetThreadsCount g c) \<and>
     snd (getMinSplit cu c DownloadMinSplitKb) = None \<and>
     snd (getSplitCount cu c DownloadSplitCount DownloadMaxSplitCount) = None \<and>
     snd (GetThreadsCount g c) = None"
  by (auto simp add: CreateDownloadConfiguration_cases split: if_splits)

lemma CreateDownloadConfiguration_ok:
  "snd (getMinSplit cu c DownloadMinSplitKb) = None \<Longrightarrow>
   snd (getSplitCount cu c DownloadSplitCount DownloadMaxSplitCount) = None \<Longrightarrow>
   snd (GetThreadsCount g c) = None \<Longrightarrow>
   \<exists>cfg. CreateDownloadConfiguration cu g c = (Some cfg, None) \<and>
     MinSplitSize cfg = fst (getMinSplit cu c DownloadMinSplitKb) \<and>
     SplitCount cfg = fst (getSplitCount cu c DownloadSplitCount DownloadMaxSplitCount)"
  by (simp add: CreateDownloadConfiguration_cases)

lemma GetDocumentationMessage_url:
  "\<exists>p q. a @ GetDocumentationMessage cu = p @ (JFrogHelpUrl cu @ ''jfrog-cli'') @ q"
proof -
  have "a @ GetDocumentationMessage cu =
      (a @ ''You can read the documentation at '') @ (JFrogHelpUrl cu @ ''jfrog-cli'') @ []"
    by (simp add: GetDocumentationMessage_def)
  then show ?thesis by blast
qed

subsection \<open>The split count and the minimum split size\<close>

text \<open>C1: when the value of \<open>split-count\<close> is the decimal numeral of a number \<open>n\<close> from 0
  to 15 (or any text that \<open>Atoi\<close> reads as such a number), \<open>getSplitCount\<close> returns \<open>n\<close> and
  no error; every configuration that \<open>CreateDownloadConfiguration\<close> returns has the split
  count \<open>n\<close>, and it does return one when the minimum split size and the thread count
  raise no error. When \<open>Atoi\<close> reads the value as a number above 15 or below 0,
  \<open>getSplitCount\<close> returns an error and \<open>CreateDownloadConfiguration\<close> returns an error and
  no configuration. When the value is empty the split count is 3.\<close>

theorem split_count_range:
  "(0 \<le> n \<and> n \<le> 15 \<and>
    (GetStringFlagValue c ''split-count'' = Itoa n \<or>
     GetStringFlagValue c ''split-count'' \<noteq> [] \<and>
     Atoi (GetStringFlagValue c ''split-count'') = (n, None)) \<longrightarrow>
      getSplitCount cu c DownloadSplitCount DownloadMaxSplitCount = (n, None) \<and>
      (\<forall>cfg. fst (CreateDownloadConfiguration cu g c) = Some cfg \<longrightarrow> SplitCount cfg = n) \<and>
      (snd (getMinSplit cu c DownloadMinSplitKb) = None \<and> snd (GetThreadsCount g c) = None \<longrightarrow>
         (\<exists>cfg. CreateDownloadConfiguration cu g c = (Some cfg, None) \<and> SplitCount cfg = n))) \<and>
   (GetStringFlagValue c ''split-count'' \<noteq> [] \<and>
    Atoi (GetStringFlagValue c ''split-count'') = (n, e) \<and> (15 < n \<or> n < 0) \<longrightarrow>
      getSplitCount cu c DownloadSplitCount DownloadMaxSplitCount
        = (n, Some (if n < 0 then err_negative else err_maximum 15)) \<and>
      fst (CreateDownloadConfiguration cu g c) = None \<and>
      snd (CreateDownloadConfiguration cu g c) \<noteq> None) \<and>
   (GetStringFlagValue c ''split-count'' = [] \<longrightarrow>
      getSplitCount cu c DownloadSplitCount DownloadMaxSplitCount = (3, None) \<and>
      (\<forall>cfg. fst (CreateDownloadConfiguration cu g c) = Some cfg \<longrightarrow> SplitCount cfg = 3))"
proof (intro conjI impI)
  assume h: "0 \<le> n \<and> n \<le> 15 \<and>
    (GetStringFlagValue c ''split-count'' = Itoa n \<or>
     GetStringFlagValue c ''split-count'' \<noteq> [] \<and>
     Atoi (GetStringFlagValue c ''split-count'') = (n, None))"
  then have "GetStringFlagValue c ''split-count'' \<noteq> [] \<and>
     Atoi (GetStringFlagValue c ''split-count'') = (n, None)"
    using Atoi_Itoa_small [of n] by auto
  with h show ok: "getSplitCount cu c DownloadSplitCount DownloadMaxSplitCount = (n, None)"
    by (simp add: getSplitCount_unfold DownloadMaxSplitCount_def)
  show "\<forall>cfg. fst (CreateDownloadConfiguration cu g c) = Some cfg \<longrightarrow> SplitCount cfg = n"
    using ok CreateDownloadConfiguration_Some [of cu g c] by simp
  assume "snd (getMinSplit cu c DownloadMinSplitKb) = None \<and> snd (GetThreadsCount g c) = None"
  then show "\<exists>cfg. CreateDownloadConfiguration cu g c = (Some cfg, None) \<and> SplitCount cfg = n"
    using ok CreateDownloadConfiguration_ok [of cu c g] by auto
next
  assume h: "GetStringFlagValue c ''split-count'' \<noteq> [] \<and>
    Atoi (GetStringFlagValue c ''split-count'') = (n, e) \<and> (15 < n \<or> n < 0)"
  then show bad: "getSplitCount cu c DownloadSplitCount DownloadMaxSplitCount
        = (n, Some (if n < 0 then err_negative else err_maximum 15))"
    by (auto simp add: getSplitCount_unfold DownloadMaxSplitCount_def)
  then show "fst (CreateDownloadConfiguration cu g c) = None"
    by (simp add: CreateDownloadConfiguration_cases)
  from bad show "snd (CreateDownloadConfiguration cu g c) \<noteq> None"
    by (simp add: CreateDownloadConfiguration_cases)
next
  assume h: "GetStringFlagValue c ''split-count'' = []"
  then show dflt: "getSplitCount cu c DownloadSplitCount DownloadMaxSplitCount = (3, None)"
    by (simp add: getSplitCount_unfold DownloadSplitCount_def)
  show "\<forall>cfg. fst (CreateDownloadConfiguration cu g c) = Some cfg \<longrightarrow> SplitCount cfg = 3"
    using dflt CreateDownloadConfiguration_Some [of cu g c] by simp
qed

theorem split_count_range_witness:
  "CreateDownloadConfiguration example_coreutils example_GetThreadsCount
     (example_Context [''split-count''] [''split-count'' \<mapsto> ''15''] Map.empty)
   = (Some \<lparr>Threads = 3, SplitCount = 15, MinSplitSize = 5120, Symlink = True, SkipChecksum = False\<rparr>,
      None) \<and>
   getSplitCount example_coreutils
     (example_Context [''split-count''] [''split-count'' \<mapsto> ''16''] Map.empty)
     DownloadSplitCount DownloadMaxSplitCount = (16, Some (err_maximum 15)) \<and>
   getSplitCount example_coreutils
     (example_Context [''split-count''] [''split-count'' \<mapsto> ''-1''] Map.empty)
     DownloadSplitCount DownloadMaxSplitCount = (- 1, Some err_negative) \<and>
   getSplitCount example_coreutils (example_Context [] Map.empty Map.empty)
     DownloadSplitCount DownloadMaxSplitCount = (3, None)"
proof -
  let ?c15 = "example_Context [''split-count''] [''split-count'' \<mapsto> ''15''] Map.empty"
  let ?c16 = "example_Context [''split-count''] [''split-count'' \<mapsto> ''16''] Map.empty"
  let ?cm1 = "example_Context [''split-count''] [''split-count'' \<mapsto> ''-1''] Map.empty"
  let ?c0 = "example_Context [] Map.empty Map.empty"
  have "\<exists>cfg. CreateDownloadConfiguration example_coreutils example_GetThreadsCount ?c15 = (Some cfg, None)
      \<and> SplitCount cfg = 15"
    using split_count_range [of 15 ?c15 example_coreutils example_GetThreadsCount, THEN conjunct1]
    by (simp add: example_Context_simps Itoa_15 getMinSplit_unfold GetThreadsCount_def
        example_GetThreadsCount_empty)
  then have a: "CreateDownloadConfiguration example_coreutils example_GetThreadsCount ?c15
   = (Some \<lparr>Threads = 3, SplitCount = 15, MinSplitSize = 5120, Symlink = True, SkipChecksum = False\<rparr>,
      None)"
    by (auto simp add: CreateDownloadConfiguration_cases example_Context_simps
        getMinSplit_unfold GetThreadsCount_def example_GetThreadsCount_empty
        DownloadMinSplitKb_def split: if_splits)
  have b: "getSplitCount example_coreutils ?c16 DownloadSplitCount DownloadMaxSplitCount
      = (16, Some (err_maximum 15))"
    using split_count_range [of 16 ?c16 example_coreutils example_GetThreadsCount None,
        THEN conjunct2, THEN conjunct1]
    by (simp add: example_Context_simps Atoi_16)
  have c: "getSplitCount example_coreutils ?cm1 DownloadSplitCount DownloadMaxSplitCount
      = (- 1, Some err_negative)"
    using split_count_range [of "- 1" ?cm1 example_coreutils example_GetThreadsCount None,
        THEN conjunct2, THEN conjunct1]
    by (simp add: example_Context_simps Atoi_minus_1)
  have d: "getSplitCount example_coreutils ?c0 DownloadSplitCount DownloadMaxSplitCount = (3, None)"
    using split_count_range [of _ ?c0 example_coreutils example_GetThreadsCount,
        THEN conjunct2, THEN conjunct2]
    by (simp add: example_Context_simps)
  from a b c d show ?thesis by simp
qed

text \<open>C2: when the value of \<open>min-split\<close> is empty, the minimum split size is 5120: that
  is what \<open>getMinSplit\<close> returns, what every returned configuration holds, and a
  configuration is returned when the split count and the thread count raise no error.
  When the value is not empty and \<open>ParseInt\<close> in base 10 reports an error,
  \<open>CreateDownloadConfiguration\<close> returns no configuration and an error whose message
  contains the documentation URL, the help URL followed by \<open>jfrog-cli\<close>.\<close>

theorem min_split_default_and_error:
  "(GetStringFlagValue c ''min-split'' = [] \<longrightarrow>
      getMinSplit cu c DownloadMinSplitKb = (5120, None) \<and>
      (\<forall>cfg. fst (CreateDownloadConfiguration cu g c) = Some cfg \<longrightarrow> MinSplitSize cfg = 5120) \<and>
      (snd (getSplitCount cu c DownloadSplitCount DownloadMaxSplitCount) = None \<and>
       snd (GetThreadsCount g c) = None \<longrightarrow>
         (\<exists>cfg. CreateDownloadConfiguration cu g c = (Some cfg, None) \<and> MinSplitSize cfg = 5120))) \<and>
   (GetStringFlagValue c ''min-split'' \<noteq> [] \<and>
    snd (ParseInt (GetStringFlagValue c ''min-split'') 10 64) \<noteq> None \<longrightarrow>
      (\<exists>msg p q. CreateDownloadConfiguration cu g c = (None, Some (errors_New msg)) \<and>
         msg = p @ (JFrogHelpUrl cu @ ''jfrog-cli'') @ q))"
proof (intro conjI impI)
  assume unset: "GetStringFlagValue c ''min-split'' = []"
  then show dflt: "getMinSplit cu c DownloadMinSplitKb = (5120, None)"
    by (simp add: getMinSplit_unfold DownloadMinSplitKb_def)
  show "\<forall>cfg. fst (CreateDownloadConfiguration cu g c) = Some cfg \<longrightarrow> MinSplitSize cfg = 5120"
    using dflt CreateDownloadConfiguration_Some [of cu g c] by simp
  assume "snd (getSplitCount cu c DownloadSplitCount DownloadMaxSplitCount) = None \<and>
    snd (GetThreadsCount g c) = None"
  then show "\<exists>cfg. CreateDownloadConfiguration cu g c = (Some cfg, None) \<and> MinSplitSize cfg = 5120"
    using dflt CreateDownloadConfiguration_ok [of cu c g] by auto
next
  assume bad: "GetStringFlagValue c ''min-split'' \<noteq> [] \<and>
    snd (ParseInt (GetStringFlagValue c ''min-split'') 10 64) \<noteq> None"
  let ?msg = "''The '--min-split' option should have a numeric value. '' @ GetDocumentationMessage cu"
  from bad have "CreateDownloadConfiguration cu g c = (None, Some (errors_New ?msg))"
    by (simp add: CreateDownloadConfiguration_cases getMinSplit_unfold)
  moreover obtain p q where "?msg = p @ (JFrogHelpUrl cu @ ''jfrog-cli'') @ q"
    using GetDocumentationMessage_url by blast
  ultimately show "\<exists>msg p q. CreateDownloadConfiguration cu g c = (None, Some (errors_New msg)) \<and>
         msg = p @ (JFrogHelpUrl cu @ ''jfrog-cli'') @ q"
    by blast
qed

theorem min_split_default_and_error_witness:
  "CreateDownloadConfiguration example_coreutils example_GetThreadsCount
     (example_Context [] Map.empty Map.empty)
   = (Some \<lparr>Threads = 3, SplitCount = 3, MinSplitSize = 5120, Symlink = True, SkipChecksum = False\<rparr>,
      None) \<and>
   CreateDownloadConfiguration example_coreutils example_GetThreadsCount
     (example_Context [''min-split''] [''min-split'' \<mapsto> ''5k''] Map.empty)
   = (None, Some (errors_New
       ''The '--min-split' option should have a numeric value. You can read the documentation at https://help.example/jfrog-cli''))"
proof -
  let ?c1 = "example_Context [] Map.empty Map.empty"
  let ?c2 = "example_Context [''min-split''] [''min-split'' \<mapsto> ''5k''] Map.empty"
  have "\<exists>cfg. CreateDownloadConfiguration example_coreutils example_GetThreadsCount ?c1 = (Some cfg, None)
      \<and> MinSplitSize cfg = 5120"
    using min_split_default_and_error [of ?c1 example_coreutils example_GetThreadsCount, THEN conjunct1]
    by (simp add: example_Context_simps getSplitCount_unfold GetThreadsCount_def
        example_GetThreadsCount_empty)
  then have a: "CreateDownloadConfiguration example_coreutils example_GetThreadsCount ?c1
   = (Some \<lparr>Threads = 3, SplitCount = 3, MinSplitSize = 5120, Symlink = True, SkipChecksum = False\<rparr>,
      None)"
    by (simp add: CreateDownloadConfiguration_cases example_Context_simps getSplitCount_unfold
        getMinSplit_unfold GetThreadsCount_def example_GetThreadsCount_empty
        DownloadSplitCount_def DownloadMinSplitKb_def)
  have "\<exists>msg p q. CreateDownloadConfiguration example_coreutils example_GetThreadsCount ?c2
      = (None, Some (errors_New msg)) \<and> msg = p @ (JFrogHelpUrl example_coreutils @ ''jfrog-cli'') @ q"
    using min_split_default_and_error [of ?c2 example_coreutils example_GetThreadsCount, THEN conjunct2]
    by (simp add: example_Context_simps ParseInt_5k)
  then have b: "CreateDownloadConfiguration example_coreutils example_GetThreadsCount ?c2
   = (None, Some (errors_New
       ''The '--min-split' option should have a numeric value. You can read the documentation at https://help.example/jfrog-cli''))"
    by (simp add: CreateDownloadConfiguration_cases example_Context_simps getMinSplit_unfold
        ParseInt_5k GetDocumentationMessage_def example_coreutils_def)
  from a b show ?thesis by simp
qed

text \<open>C3: when the \<open>split-count\<close> value is not empty, \<open>getSplitCount\<close> runs its three
  tests one after the other, and the error it returns is the one of the last test that
  finds a fault: a negative number gives the error about a negative value, whatever the
  tests before it found (also a failed parse, and also a number above the maximum);
  otherwise a number above the maximum gives the error about the maximum; otherwise a
  failed parse gives the error about a numeric value. Here \<open>(n, e)\<close> is what \<open>Atoi\<close>
  returns for the value.\<close>

theorem getSplitCount_last_check_wins:
  assumes "GetStringFlagValue c ''split-count'' \<noteq> []"
    and "Atoi (GetStringFlagValue c ''split-count'') = (n, e)"
  shows "getSplitCount cu c d m =
           (n, if n < 0 then Some err_negative
               else if n > m then Some (err_maximum m)
               else if e \<noteq> None then Some (err_numeric cu)
               else None)"
  using assms by (simp add: getSplitCount_unfold)

theorem getSplitCount_last_check_wins_witness:
  "getSplitCount example_coreutils
     (example_Context [''split-count''] [''split-count'' \<mapsto> ''-99999999999999999999''] Map.empty)
     DownloadSplitCount DownloadMaxSplitCount
   = (- 9223372036854775808, Some err_negative)"
  using getSplitCount_last_check_wins
    [of "example_Context [''split-count''] [''split-count'' \<mapsto> ''-99999999999999999999''] Map.empty"
        "- 9223372036854775808" "Some (NumError ''Atoi'' ''-99999999999999999999'' ErrRange)"
        example_coreutils DownloadSplitCount DownloadMaxSplitCount]
  by (simp add: example_Context_simps Atoi_minus_huge)

text \<open>C9: \<open>getMinSplit\<close> and \<open>getSplitCount\<close> look at the string value of the flag only.
  A flag that was set to the empty string gives the default (5120, or 3) and no error, and
  whether the context reports the flag as set changes neither result.\<close>

theorem empty_value_is_not_supplied:
  "(IsFlagSet c ''min-split'' \<and> GetStringFlagValue c ''min-split'' = []
      \<longrightarrow> getMinSplit cu c DownloadMinSplitKb = (5120, None)) \<and>
   (IsFlagSet c ''split-count'' \<and> GetStringFlagValue c ''split-count'' = []
      \<longrightarrow> getSplitCount cu c DownloadSplitCount DownloadMaxSplitCount = (3, None)) \<and>
   getMinSplit cu (c\<lparr>IsFlagSet := f\<rparr>) d = getMinSplit cu c d \<and>
   getSplitCount cu (c\<lparr>IsFlagSet := f\<rparr>) d m = getSplitCount cu c d m"
  by (simp add: getMinSplit_unfold getSplitCount_unfold DownloadMinSplitKb_def DownloadSplitCount_def)

theorem empty_value_is_not_supplied_witness:
  "IsFlagSet (example_Context [''min-split'', ''split-count''] Map.empty Map.empty) ''min-split'' \<and>
   GetStringFlagValue (example_Context [''min-split'', ''split-count''] Map.empty Map.empty) ''min-split'' = [] \<and>
   getMinSplit example_coreutils (example_Context [''min-split'', ''split-count''] Map.empty Map.empty)
     DownloadMinSplitKb = (5120, None) \<and>
   IsFlagSet (example_Context [''min-split'', ''split-count''] Map.empty Map.empty) ''split-count'' \<and>
   GetStringFlagValue (example_Context [''min-split'', ''split-count''] Map.empty Map.empty) ''split-count'' = [] \<and>
   getSplitCount example_coreutils (example_Context [''min-split'', ''split-count''] Map.empty Map.empty)
     DownloadSplitCount DownloadMaxSplitCount = (3, None)"
  using empty_value_is_not_supplied
    [of "example_Context [''min-split'', ''split-count''] Map.empty Map.empty" example_coreutils]
  by (simp add: example_Context_simps)

text \<open>C10: when \<open>CreateDownloadConfiguration\<close> returns an error, the configuration it
  returns is nil, whichever of the three steps failed.\<close>

theorem CreateDownloadConfiguration_error_nil:
  "CreateDownloadConfiguration cu g c = (cfg, Some e) \<Longrightarrow> cfg = None"
  by (simp add: CreateDownloadConfiguration_cases split: if_splits)

theorem CreateDownloadConfiguration_error_nil_witness:
  "CreateDownloadConfiguration example_coreutils example_GetThreadsCount
     (example_Context [''min-split''] [''min-split'' \<mapsto> ''abc''] Map.empty)
   = (None, Some (errors_New (''The '--min-split' option should have a numeric value. ''
                                @ GetDocumentationMessage example_coreutils)))"
proof -
  let ?c = "example_Context [''min-split''] [''min-split'' \<mapsto> ''abc''] Map.empty"
  let ?e = "errors_New (''The '--min-split' option should have a numeric value. ''
                                @ GetDocumentationMessage example_coreutils)"
  have snd_eq: "snd (CreateDownloadConfiguration example_coreutils example_GetThreadsCount ?c) = Some ?e"
    by (simp add: CreateDownloadConfiguration_cases getMinSplit_unfold example_Context_simps ParseInt_abc)
  then have "CreateDownloadConfiguration example_coreutils example_GetThreadsCount ?c
      = (fst (CreateDownloadConfiguration example_coreutils example_GetThreadsCount ?c), Some ?e)"
    by (metis prod.collapse)
  from CreateDownloadConfiguration_error_nil [OF this] snd_eq show ?thesis
    by (metis prod.collapse)
qed

subsection \<open>Quiet mode and the project key\<close>

text \<open>C4: when the \<open>quiet\<close> flag is set, \<open>GetQuietValue\<close> is its boolean value, whatever the
  environment holds. When it is not set, the result is true exactly when the CI variable
  is set to a text that \<open>ParseBool\<close> reads as true, one of six spellings; it is false when
  the variable is not set and when its text does not parse. The function returns a
  boolean and nothing else, so no error can leave it.\<close>

theorem GetQuietValue_flag_then_CI:
  "(IsFlagSet c ''quiet'' \<longrightarrow> GetQuietValue cu env c = GetBoolFlagValue c ''quiet'') \<and>
   (\<not> IsFlagSet c ''quiet'' \<longrightarrow>
      GetQuietValue cu env c =
        (case env (CI cu) of None \<Rightarrow> False | Some v \<Rightarrow> ParseBool v = (True, None)) \<and>
      GetQuietValue cu env c =
        (case env (CI cu) of None \<Rightarrow> False
         | Some v \<Rightarrow> v \<in> {''1'', ''t'', ''T'', ''true'', ''TRUE'', ''True''}) \<and>
      (env (CI cu) = None \<longrightarrow> GetQuietValue cu env c = False) \<and>
      (\<forall>v. env (CI cu) = Some v \<and> snd (ParseBool v) \<noteq> None \<longrightarrow> GetQuietValue cu env c = False))"
  by (auto simp add: GetQuietValue_def getCiValue_def GetBoolEnvValue_def Getenv_def ParseBool_def
      Let_def split: option.splits)

theorem GetQuietValue_flag_then_CI_witness:
  "GetQuietValue example_coreutils [''CI'' \<mapsto> ''true''] (example_Context [] Map.empty Map.empty) = True \<and>
   GetQuietValue example_coreutils Map.empty (example_Context [] Map.empty Map.empty) = False \<and>
   GetQuietValue example_coreutils [''CI'' \<mapsto> ''yes''] (example_Context [] Map.empty Map.empty) = False \<and>
   GetQuietValue example_coreutils [''CI'' \<mapsto> ''true'']
     (example_Context [''quiet''] Map.empty [''quiet'' \<mapsto> False]) = False"
  using GetQuietValue_flag_then_CI
    [of "example_Context [] Map.empty Map.empty" example_coreutils "[''CI'' \<mapsto> ''true'']"]
    GetQuietValue_flag_then_CI
    [of "example_Context [] Map.empty Map.empty" example_coreutils Map.empty]
    GetQuietValue_flag_then_CI
    [of "example_Context [] Map.empty Map.empty" example_coreutils "[''CI'' \<mapsto> ''yes'']"]
    GetQuietValue_flag_then_CI
    [of "example_Context [''quiet''] Map.empty [''quiet'' \<mapsto> False]" example_coreutils
        "[''CI'' \<mapsto> ''true'']"]
  by (simp add: example_Context_simps example_coreutils_def ParseBool_def)

text \<open>C5: \<open>GetProject\<close> is the value of the \<open>project\<close> flag when that is not empty,
  whatever the environment holds; otherwise it is the value of the environment variable
  named by \<open>coreutils.Project\<close>, and the empty string when that variable is not set.\<close>

theorem GetProject_flag_then_environment:
  "(GetStringFlagValue c ''project'' \<noteq> [] \<longrightarrow> GetProject cu env c = GetStringFlagValue c ''project'') \<and>
   (GetStringFlagValue c ''project'' = [] \<longrightarrow>
      GetProject cu env c = (case env (Project cu) of None \<Rightarrow> [] | Some v \<Rightarrow> v))"
  by (simp add: GetProject_def getOrDefaultEnv_def Getenv_def)

theorem GetProject_flag_then_environment_witness:
  "GetProject example_coreutils [''JFROG_CLI_BUILD_PROJECT'' \<mapsto> ''proj1'']
     (example_Context [] Map.empty Map.empty) = ''proj1'' \<and>
   GetProject example_coreutils [''JFROG_CLI_BUILD_PROJECT'' \<mapsto> ''proj1'']
     (example_Context [''project''] [''project'' \<mapsto> ''proj2''] Map.empty) = ''proj2'' \<and>
   GetProject example_coreutils Map.empty (example_Context [] Map.empty Map.empty) = []"
  using GetProject_flag_then_environment
    [of "example_Context [] Map.empty Map.empty" example_coreutils
        "[''JFROG_CLI_BUILD_PROJECT'' \<mapsto> ''proj1'']"]
    GetProject_flag_then_environment
    [of "example_Context [''project''] [''project'' \<mapsto> ''proj2''] Map.empty" example_coreutils
        "[''JFROG_CLI_BUILD_PROJECT'' \<mapsto> ''proj1'']"]
    GetProject_flag_then_environment
    [of "example_Context [] Map.empty Map.empty" example_coreutils Map.empty]
  by (simp add: example_Context_simps example_coreutils_def)

subsection \<open>Splitting a flag value at the semicolons\<close>

lemma IndexByte_None: "IndexByte s sep = None \<longleftrightarrow> sep \<notin> set s"
  by (induction s) auto

lemma IndexByte_Some:
  "IndexByte s sep = Some m \<Longrightarrow>
     m < length s \<and> sep \<notin> set (take m s) \<and> s = take m s @ sep # drop (m + 1) s"
proof (induction s arbitrary: m)
  case Nil
  then show ?case by simp
next
  case (Cons c cs)
  show ?case
  proof (cases "c = sep")
    case True
    with Cons.prems show ?thesis by simp
  next
    case False
    with Cons.prems obtain m' where m': "IndexByte cs sep = Some m'" "m = Suc m'"
      by auto
    from Cons.IH [OF m'(1)] False m'(2) show ?thesis
      by simp
  qed
qed

lemma Count_append: "Count (a @ b) sep = Count a sep + Count b sep"
  by (simp add: Count_def)

lemma Count_0: "sep \<notin> set s \<Longrightarrow> Count s sep = 0"
  by (induction s) (auto simp add: Count_def)

lemma Count_0_iff: "Count s sep = 0 \<longleftrightarrow> sep \<notin> set s"
  by (induction s) (auto simp add: Count_def)

lemma Count_IndexByte:
  assumes "IndexByte s sep = Some m"
  shows "Count s sep = Suc (Count (drop (m + 1) s) sep)"
proof -
  from IndexByte_Some [OF assms]
  have notin: "sep \<notin> set (take m s)" and eq: "s = take m s @ sep # drop (m + 1) s"
    by simp_all
  have "Count s sep = Count (take m s @ sep # drop (m + 1) s) sep"
    using eq by simp
  also have "\<dots> = Count (take m s) sep + Count (sep # drop (m + 1) s) sep"
    by (rule Count_append)
  also have "\<dots> = Suc (Count (drop (m + 1) s) sep)"
    using notin by (simp add: Count_0) (simp add: Count_def)
  finally show ?thesis .
qed

lemma Join_Cons: "ys \<noteq> [] \<Longrightarrow> Join (x # ys) sep = x @ sep @ Join ys sep"
  by (cases ys) simp_all

lemma genSplit_loop_props:
  "Count s sep \<le> k \<Longrightarrow>
     Join (genSplit_loop k s sep) [sep] = s \<and>
     (\<forall>seg\<in>set (genSplit_loop k s sep). sep \<notin> set seg) \<and>
     length (genSplit_loop k s sep) = Count s sep + 1"
proof (induction k arbitrary: s)
  case 0
  then show ?case by (simp add: Count_0_iff)
next
  case (Suc k)
  show ?case
  proof (cases "IndexByte s sep")
    case None
    then have "sep \<notin> set s"
      by (simp add: IndexByte_None)
    with None show ?thesis
      by (simp add: Count_0)
  next
    case (Some m)
    let ?rest = "drop (m + 1) s"
    from Count_IndexByte [OF Some] Suc.prems have "Count ?rest sep \<le> k"
      by simp
    from Suc.IH [OF this]
    have J: "Join (genSplit_loop k ?rest sep) [sep] = ?rest"
      and N: "\<forall>seg\<in>set (genSplit_loop k ?rest sep). sep \<notin> set seg"
      and L: "length (genSplit_loop k ?rest sep) = Count ?rest sep + 1"
      by simp_all
    from L have ne: "genSplit_loop k ?rest sep \<noteq> []"
      by auto
    from IndexByte_Some [OF Some]
    have notin: "sep \<notin> set (take m s)" and eq: "s = take m s @ sep # ?rest"
      by simp_all
    have "Join (genSplit_loop (Suc k) s sep) [sep] = take m s @ [sep] @ ?rest"
      using Some J ne by (simp add: Join_Cons)
    with eq have 1: "Join (genSplit_loop (Suc k) s sep) [sep] = s"
      by simp
    have 2: "\<forall>seg\<in>set (genSplit_loop (Suc k) s sep). sep \<notin> set seg"
      using Some N notin by simp
    have 3: "length (genSplit_loop (Suc k) s sep) = Count s sep + 1"
      using Some L Count_IndexByte [OF Some] by simp
    from 1 2 3 show ?thesis by blast
  qed
qed

lemma Split_genSplit_loop: "Split s sep = genSplit_loop (Count s sep) s sep"
proof -
  have "Count s sep \<le> length s"
    by (simp add: Count_def)
  then show ?thesis
    by (simp add: Split_def Let_def)
qed

lemma Split_props:
  "Join (Split s sep) [sep] = s \<and> (\<forall>seg\<in>set (Split s sep). sep \<notin> set seg) \<and>
   length (Split s sep) = Count s sep + 1"
  using genSplit_loop_props [of s sep "Count s sep"] by (simp add: Split_genSplit_loop)

lemma Split_unique:
  "ys \<noteq> [] \<Longrightarrow> \<forall>seg\<in>set ys. sep \<notin> set seg \<Longrightarrow> Split (Join ys [sep]) sep = ys"
proof (induction ys rule: induct_list012)
  case 1
  then show ?case by simp
next
  case (2 x)
  then have "sep \<notin> set x" by simp
  then show ?case
    by (simp add: Split_genSplit_loop Count_0)
next
  case (3 x y ys)
  let ?rest = "Join (y # ys) [sep]"
  let ?s = "x @ sep # ?rest"
  from "3.prems" have nx: "sep \<notin> set x" by simp
  have idx: "IndexByte ?s sep = Some (length x)"
    using nx by (induction x) auto
  have cnt: "Count ?s sep = Suc (Count ?rest sep)"
    using Count_IndexByte [OF idx] by simp
  have IH: "Split ?rest sep = y # ys"
    using "3.IH"(2) "3.prems" by simp
  have "Split ?s sep = x # Split ?rest sep"
    by (simp add: Split_genSplit_loop cnt idx)
  with IH show ?case by simp
qed

lemma Split_abc: "Split ''a;b;c'' (CHR '';'') = [''a'', ''b'', ''c'']"
  by code_simp

lemma Split_empty_segments: "Split '';x;;'' (CHR '';'') = ['''', ''x'', '''', '''']"
  by code_simp

text \<open>C7: \<open>GetStringsArrFlagValue\<close> is the empty slice when the flag is not set. When it is
  set, the result is the value split at each semicolon, in order, empty pieces included:
  joining the pieces with semicolons gives the value back, no piece holds a semicolon, and
  there is one piece more than there are semicolons. It is the only non-empty list of
  pieces with these properties.\<close>

theorem GetStringsArrFlagValue_splits:
  "(\<not> IsFlagSet c flagName \<longrightarrow> GetStringsArrFlagValue c flagName = []) \<and>
   (IsFlagSet c flagName \<longrightarrow>
      GetStringsArrFlagValue c flagName = Split (GetStringFlagValue c flagName) (CHR '';'') \<and>
      Join (GetStringsArrFlagValue c flagName) '';'' = GetStringFlagValue c flagName \<and>
      (\<forall>seg\<in>set (GetStringsArrFlagValue c flagName). CHR '';'' \<notin> set seg) \<and>
      length (GetStringsArrFlagValue c flagName) = Count (GetStringFlagValue c flagName) (CHR '';'') + 1 \<and>
      (\<forall>ys. ys \<noteq> [] \<and> (\<forall>seg\<in>set ys. CHR '';'' \<notin> set seg) \<and>
            Join ys '';'' = GetStringFlagValue c flagName
         \<longrightarrow> GetStringsArrFlagValue c flagName = ys))"
proof (intro conjI impI)
  assume "\<not> IsFlagSet c flagName"
  then show "GetStringsArrFlagValue c flagName = []"
    by (simp add: GetStringsArrFlagValue_def)
next
  assume set: "IsFlagSet c flagName"
  then show eq: "GetStringsArrFlagValue c flagName = Split (GetStringFlagValue c flagName) (CHR '';'')"
    by (simp add: GetStringsArrFlagValue_def)
  show "Join (GetStringsArrFlagValue c flagName) '';'' = GetStringFlagValue c flagName"
    using Split_props [of "GetStringFlagValue c flagName" "CHR '';''"] by (simp add: eq)
  show "\<forall>seg\<in>set (GetStringsArrFlagValue c flagName). CHR '';'' \<notin> set seg"
    using Split_props [of "GetStringFlagValue c flagName" "CHR '';''"] by (simp add: eq)
  show "length (GetStringsArrFlagValue c flagName) = Count (GetStringFlagValue c flagName) (CHR '';'') + 1"
    using Split_props [of "GetStringFlagValue c flagName" "CHR '';''"] by (simp add: eq)
  show "\<forall>ys. ys \<noteq> [] \<and> (\<forall>seg\<in>set ys. CHR '';'' \<notin> set seg) \<and>
            Join ys '';'' = GetStringFlagValue c flagName
         \<longrightarrow> GetStringsArrFlagValue c flagName = ys"
  proof (intro allI impI)
    fix ys
    assume h: "ys \<noteq> [] \<and> (\<forall>seg\<in>set ys. CHR '';'' \<notin> set seg) \<and>
            Join ys '';'' = GetStringFlagValue c flagName"
    then have "Split (Join ys '';'') (CHR '';'') = ys"
      using Split_unique [of ys "CHR '';''"] by simp
    with h show "GetStringsArrFlagValue c flagName = ys"
      by (simp add: eq)
  qed
qed

theorem GetStringsArrFlagValue_splits_witness:
  "GetStringsArrFlagValue (example_Context [] [''exclusions'' \<mapsto> ''a;b;c''] Map.empty) ''exclusions'' = [] \<and>
   GetStringsArrFlagValue (example_Context [''exclusions''] [''exclusions'' \<mapsto> ''a;b;c''] Map.empty)
     ''exclusions'' = [''a'', ''b'', ''c''] \<and>
   GetStringsArrFlagValue (example_Context [''exclusions''] [''exclusions'' \<mapsto> '';x;;''] Map.empty)
     ''exclusions'' = ['''', ''x'', '''', '''']"
proof -
  have a: "GetStringsArrFlagValue (example_Context [] [''exclusions'' \<mapsto> ''a;b;c''] Map.empty)
      ''exclusions'' = []"
    using GetStringsArrFlagValue_splits
      [of "example_Context [] [''exclusions'' \<mapsto> ''a;b;c''] Map.empty" "''exclusions''",
       THEN conjunct1]
    by (simp add: example_Context_simps)
  have b: "GetStringsArrFlagValue (example_Context [''exclusions''] [''exclusions'' \<mapsto> ''a;b;c''] Map.empty)
     ''exclusions'' = [''a'', ''b'', ''c'']"
    using GetStringsArrFlagValue_splits
      [of "example_Context [''exclusions''] [''exclusions'' \<mapsto> ''a;b;c''] Map.empty" "''exclusions''",
       THEN conjunct2]
    by (simp add: example_Context_simps Split_abc)
  have c: "GetStringsArrFlagValue (example_Context [''exclusions''] [''exclusions'' \<mapsto> '';x;;''] Map.empty)
     ''exclusions'' = ['''', ''x'', '''', '''']"
    using GetStringsArrFlagValue_splits
      [of "example_Context [''exclusions''] [''exclusions'' \<mapsto> '';x;;''] Map.empty" "''exclusions''",
       THEN conjunct2]
    by (simp add: example_Context_simps Split_empty_segments)
  from a b c show ?thesis by simp
qed

subsection \<open>The flags of a command, sorted\<close>

text \<open>The insertion sort, run with a comparison that does not panic and compares keys,
  inserts each element into the part that is already sorted.\<close>

lemma insertionSort_inner_insert_down:
  assumes "\<forall>a\<in>S. \<forall>b\<in>S. lessf a b = Inr (key a < key b)"
    and "x \<in> S" and "set ys \<subseteq> S"
  shows "insertionSort_inner lessf (rev ys @ x # post) (length ys)
           = Inr (rev (insert_down key x ys) @ post)"
  using assms(3)
proof (induction ys arbitrary: post)
  case Nil
  then show ?case by simp
next
  case (Cons y ys)
  let ?data = "rev (y # ys) @ x # post"
  have len: "length (rev ys) = length ys"
    by simp
  have data: "?data = rev ys @ y # x # post"
    by simp
  have at_j: "?data ! length ys = y"
    unfolding data using nth_append_length [of "rev ys" y "x # post"] by simp
  have at_Suc: "?data ! Suc (length ys) = x"
    unfolding data by (simp add: nth_append)
  have swap: "?data[Suc (length ys) := y, length ys := x] = rev ys @ x # y # post"
    unfolding data by (simp add: list_update_append)
  from Cons.prems assms have lessf: "lessf x y = Inr (key x < key y)"
    by simp
  show ?case
  proof (cases "key x < key y")
    case True
    from Cons.prems have "set ys \<subseteq> S" by simp
    from Cons.IH [OF this, of "y # post"] True show ?thesis
      using at_j at_Suc swap lessf by simp
  next
    case False
    then show ?thesis
      using at_j at_Suc lessf by simp
  qed
qed

lemma length_insert_down: "length (insert_down key x ys) = Suc (length ys)"
  by (induction ys) simp_all

lemma set_insert_down: "set (insert_down key x ys) = insert x (set ys)"
  by (induction ys) auto

lemma mset_insert_down: "mset (insert_down key x ys) = add_mset x (mset ys)"
  by (induction ys) simp_all

lemma sorted_insert_down:
  "sorted_wrt (\<lambda>a b. key b \<le> key a) ys \<Longrightarrow> sorted_wrt (\<lambda>a b. key b \<le> key a) (insert_down key x ys)"
  by (induction ys) (auto simp add: set_insert_down)

lemma insertionSort_outer_fold:
  assumes "\<forall>a\<in>S. \<forall>b\<in>S. lessf a b = Inr (key a < key b)"
  shows "set acc \<subseteq> S \<Longrightarrow> set rest \<subseteq> S \<Longrightarrow>
     insertionSort_outer lessf (rev acc @ rest) (length acc) (length rest)
       = Inr (rev (fold (insert_down key) rest acc))"
proof (induction rest arbitrary: acc)
  case Nil
  then show ?case by simp
next
  case (Cons x rest)
  from Cons.prems have x: "x \<in> S" and rest: "set rest \<subseteq> S"
    by simp_all
  have inner: "insertionSort_inner lessf (rev acc @ x # rest) (length acc)
      = Inr (rev (insert_down key x acc) @ rest)"
    by (rule insertionSort_inner_insert_down [OF assms x Cons.prems(1)])
  have acc': "set (insert_down key x acc) \<subseteq> S"
    using x Cons.prems(1) by (simp add: set_insert_down)
  from Cons.IH [OF acc' rest] inner show ?case
    by (simp add: length_insert_down)
qed

lemma sort_Slice_fold:
  assumes "\<forall>a\<in>set data. \<forall>b\<in>set data. lessf a b = Inr (key a < key b)"
  shows "sort_Slice data lessf = Inr (rev (fold (insert_down key) data []))"
proof (cases data)
  case Nil
  then show ?thesis by (simp add: sort_Slice_def)
next
  case (Cons x rest)
  have "insertionSort_outer lessf (rev [x] @ rest) (length [x]) (length rest)
      = Inr (rev (fold (insert_down key) rest [x]))"
    by (rule insertionSort_outer_fold [OF assms]) (auto simp add: Cons)
  then show ?thesis
    by (simp add: sort_Slice_def Cons)
qed

lemma mset_fold_insert_down: "mset (fold (insert_down key) rest acc) = mset rest + mset acc"
  by (induction rest arbitrary: acc) (simp_all add: mset_insert_down)

lemma sorted_fold_insert_down:
  "sorted_wrt (\<lambda>a b. key b \<le> key a) acc \<Longrightarrow>
     sorted_wrt (\<lambda>a b. key b \<le> key a) (fold (insert_down key) rest acc)"
  by (induction rest arbitrary: acc) (simp_all add: sorted_insert_down)

lemma sort_Slice_sorted:
  assumes "\<forall>a\<in>set data. \<forall>b\<in>set data. lessf a b = Inr (key a < key b)"
  shows "\<exists>sorted_data. sort_Slice data lessf = Inr sorted_data \<and> mset sorted_data = mset data \<and>
           sorted (map key sorted_data)"
proof -
  let ?r = "rev (fold (insert_down key) data [])"
  have "sort_Slice data lessf = Inr ?r"
    by (rule sort_Slice_fold [OF assms])
  moreover have "mset ?r = mset data"
    by (simp add: mset_fold_insert_down)
  moreover have "sorted_wrt (\<lambda>a b. key b \<le> key a) (fold (insert_down key) data [])"
    by (rule sorted_fold_insert_down) simp
  then have "sorted (map key ?r)"
    by (simp add: sorted_map sorted_wrt_rev)
  ultimately show ?thesis by blast
qed

lemma less_GetName_Flag:
  "a \<noteq> nil_Flag \<Longrightarrow> b \<noteq> nil_Flag \<Longrightarrow> less_GetName a b = Inr (name_of a < name_of b)"
  by (cases a; cases b) (simp_all add: less_GetName_def name_of_def)

lemma GetCommandFlags_build:
  "GetCommandFlags ''build'' [''build'' \<mapsto> [''threads'', ''quiet'']]
     [''threads'' \<mapsto> Flag ''threads'' (), ''quiet'' \<mapsto> Flag ''quiet'' ()]
   = (Inr [Flag ''quiet'' (), Flag ''threads'' ()], [])"
  by code_simp

text \<open>C6, as the code has it: when the command key is not in the map, \<open>GetCommandFlags\<close>
  logs one error and returns the empty slice, without a panic. When the key is in the map
  and every flag name listed for it has a descriptor in the descriptor map,
  it returns these descriptors, each as often as it is listed, sorted upwards by name.\<close>

theorem GetCommandFlags_sorted_by_name:
  "(commandToFlags cmdKey = None \<longrightarrow>
      GetCommandFlags cmdKey commandToFlags flagsMap =
        (Inr [], [log_Error [''The command '' @ [CHR 0x22], cmdKey,
                             CHR 0x22 # '' is not found in commands flags map.'']])) \<and>
   (commandToFlags cmdKey = Some flagList \<and>
    (\<forall>flag\<in>set flagList. \<exists>name x. flagsMap flag = Some (Flag name x)) \<longrightarrow>
      (\<exists>flags. GetCommandFlags cmdKey commandToFlags flagsMap = (Inr flags, []) \<and>
         mset flags = mset (map (\<lambda>flag. the (flagsMap flag)) flagList) \<and>
         sorted (map name_of flags) \<and> nil_Flag \<notin> set flags))"
proof (intro conjI impI)
  assume "commandToFlags cmdKey = None"
  then show "GetCommandFlags cmdKey commandToFlags flagsMap =
        (Inr [], [log_Error [''The command '' @ [CHR 0x22], cmdKey,
                             CHR 0x22 # '' is not found in commands flags map.'']])"
    by (simp add: GetCommandFlags_def)
next
  assume h: "commandToFlags cmdKey = Some flagList \<and>
    (\<forall>flag\<in>set flagList. \<exists>name x. flagsMap flag = Some (Flag name x))"
  let ?data = "map (lookup_Flag flagsMap) flagList"
  from h have same: "?data = map (\<lambda>flag. the (flagsMap flag)) flagList"
    by (auto simp add: lookup_Flag_def)
  from h have nonnil: "nil_Flag \<notin> set ?data"
    by (auto simp add: lookup_Flag_def)
  then have "\<forall>a\<in>set ?data. \<forall>b\<in>set ?data. less_GetName a b = Inr (name_of a < name_of b)"
    by (metis less_GetName_Flag)
  from sort_Slice_sorted [OF this]
  obtain flags where flags: "sort_Slice ?data less_GetName = Inr flags"
    "mset flags = mset ?data" "sorted (map name_of flags)"
    by blast
  from flags(2) nonnil have "nil_Flag \<notin> set flags"
    by (metis set_mset_mset)
  moreover have "GetCommandFlags cmdKey commandToFlags flagsMap = (Inr flags, [])"
    using flags(1) h by (simp add: GetCommandFlags_def buildAndSortFlags_def)
  moreover have "mset flags = mset (map (\<lambda>flag. the (flagsMap flag)) flagList)"
    using flags(2) same by simp
  ultimately
  show "\<exists>flags. GetCommandFlags cmdKey commandToFlags flagsMap = (Inr flags, []) \<and>
         mset flags = mset (map (\<lambda>flag. the (flagsMap flag)) flagList) \<and>
         sorted (map name_of flags) \<and> nil_Flag \<notin> set flags"
    using flags(3) by blast
qed

theorem GetCommandFlags_sorted_by_name_witness:
  "GetCommandFlags ''build'' [''build'' \<mapsto> [''threads'', ''quiet'']]
     [''threads'' \<mapsto> Flag ''threads'' (), ''quiet'' \<mapsto> Flag ''quiet'' ()]
   = (Inr [Flag ''quiet'' (), Flag ''threads'' ()], []) \<and>
   GetCommandFlags ''upload'' [''build'' \<mapsto> [''threads'', ''quiet'']]
     [''threads'' \<mapsto> Flag ''threads'' (), ''quiet'' \<mapsto> Flag ''quiet'' ()]
   = (Inr ([] :: unit Flag list),
      [log_Error [''The command '' @ [CHR 0x22], ''upload'',
                  CHR 0x22 # '' is not found in commands flags map.'']])"
proof -
  let ?c2f = "[''build'' \<mapsto> [''threads'', ''quiet'']]"
  let ?fm = "[''threads'' \<mapsto> Flag ''threads'' (), ''quiet'' \<mapsto> Flag ''quiet'' ()]"
  have "\<exists>flags. GetCommandFlags ''build'' ?c2f ?fm = (Inr flags, []) \<and>
      mset flags = mset (map (\<lambda>flag. the (?fm flag)) [''threads'', ''quiet'']) \<and>
      sorted (map name_of flags) \<and> nil_Flag \<notin> set flags"
    using GetCommandFlags_sorted_by_name
      [of ?c2f "''build''" ?fm "[''threads'', ''quiet'']", THEN conjunct2]
    by simp
  then have a: "GetCommandFlags ''build'' ?c2f ?fm = (Inr [Flag ''quiet'' (), Flag ''threads'' ()], [])"
    by (simp add: GetCommandFlags_build)
  have b: "GetCommandFlags ''upload'' ?c2f ?fm
   = (Inr ([] :: unit Flag list),
      [log_Error [''The command '' @ [CHR 0x22], ''upload'',
                  CHR 0x22 # '' is not found in commands flags map.'']])"
    using GetCommandFlags_sorted_by_name [of ?c2f "''upload''" ?fm, THEN conjunct1]
    by simp
  from a b show ?thesis by simp
qed

text \<open>C6 does not hold for every descriptor map. Without a descriptor for a listed name
  the slice holds a nil descriptor, and sorting two or more elements asks it for its name:
  for the names \<open>threads\<close> and \<open>quiet\<close> and a descriptor map that lacks \<open>quiet\<close> the call
  panics and returns nothing.\<close>

theorem GetCommandFlags_nil_descriptor_panics:
  "GetCommandFlags ''build'' [''build'' \<mapsto> [''threads'', ''quiet'']]
     [''threads'' \<mapsto> Flag ''threads'' ()]
   = (Inl nil_dereference, [])"
  by code_simp

subsection \<open>Overriding a field\<close>

text \<open>C8: \<open>OverrideIntIfSet\<close> leaves the field as it was when the flag is not set, and
  also when the flag is set and \<open>ParseInt\<close> with base 0 reports an error; when the flag is
  set and the parse succeeds, the field is the parsed number. So the field changes only
  if the flag is set and its value parses.\<close>

theorem OverrideIntIfSet_frame:
  "(\<not> IsFlagSet c fieldName \<longrightarrow> OverrideIntIfSet field c fieldName = field) \<and>
   (IsFlagSet c fieldName \<and> snd (ParseInt (GetStringFlagValue c fieldName) 0 64) \<noteq> None
      \<longrightarrow> OverrideIntIfSet field c fieldName = field) \<and>
   (IsFlagSet c fieldName \<and> ParseInt (GetStringFlagValue c fieldName) 0 64 = (v, None)
      \<longrightarrow> OverrideIntIfSet field c fieldName = v) \<and>
   (OverrideIntIfSet field c fieldName \<noteq> field
      \<longrightarrow> IsFlagSet c fieldName \<and>
          ParseInt (GetStringFlagValue c fieldName) 0 64 = (OverrideIntIfSet field c fieldName, None))"
proof (cases "ParseInt (GetStringFlagValue c fieldName) 0 64")
  case (Pair w err)
  then show ?thesis
    by (cases err) (simp_all add: OverrideIntIfSet_def)
qed

theorem OverrideIntIfSet_frame_witness:
  "OverrideIntIfSet 5 (example_Context [] [''retries'' \<mapsto> ''0x10''] Map.empty) ''retries'' = 5 \<and>
   OverrideIntIfSet 5 (example_Context [''retries''] [''retries'' \<mapsto> ''zz''] Map.empty) ''retries'' = 5 \<and>
   OverrideIntIfSet 5 (example_Context [''retries''] [''retries'' \<mapsto> ''0x10''] Map.empty) ''retries'' = 16"
proof -
  have a: "OverrideIntIfSet 5 (example_Context [] [''retries'' \<mapsto> ''0x10''] Map.empty) ''retries'' = 5"
    using OverrideIntIfSet_frame
      [of "example_Context [] [''retries'' \<mapsto> ''0x10''] Map.empty" "''retries''" 5, THEN conjunct1]
    by (simp add: example_Context_simps)
  have b: "OverrideIntIfSet 5 (example_Context [''retries''] [''retries'' \<mapsto> ''zz''] Map.empty) ''retries'' = 5"
    using OverrideIntIfSet_frame
      [of "example_Context [''retries''] [''retries'' \<mapsto> ''zz''] Map.empty" "''retries''" 5,
       THEN conjunct2, THEN conjunct1]
    by (simp add: example_Context_simps ParseInt0_zz)
  have c: "OverrideIntIfSet 5 (example_Context [''retries''] [''retries'' \<mapsto> ''0x10''] Map.empty) ''retries'' = 16"
    using OverrideIntIfSet_frame
      [of "example_Context [''retries''] [''retries'' \<mapsto> ''0x10''] Map.empty" "''retries''" 5 16,
       THEN conjunct2, THEN conjunct2, THEN conjunct1]
    by (simp add: example_Context_simps ParseInt0_0x10)
  from a b c show ?thesis by simp
qed

end
